theory Spec2Isabelle
  imports Complex_Main
begin

section \<open>Two-zone cold plate: data model\<close>

text \<open>
  The program computes with IEEE doubles. The embedding idealises them as real numbers:
  rounding, overflow and underflow are not modelled. What leaves the reals is kept
  explicit: a Python float division by zero raises \<open>ZeroDivisionError\<close>, and a numpy
  division by zero yields \<open>inf\<close> or \<open>nan\<close> (with a warning only) and the computation
  goes on. A numpy number that may be \<open>inf\<close> or \<open>nan\<close> is a \<open>real option\<close>, with
  \<open>None\<close> for the three non-finite values.

  A numpy array of two numbers (\<open>x\<close>, \<open>Rpaths\<close>, \<open>Q\<close>, \<open>Tbulk\<close>, \<open>Twall\<close>, \<open>h\<close>, \<open>F\<close>)
  is a pair; index 0 is \<open>fst\<close>, index 1 is \<open>snd\<close>.
\<close>

type_synonym vec2 = "real \<times> real"

type_synonym np_float = "real option"

text \<open>The dataclass \<open>ThermalParams\<close>; the two targets default to \<open>None\<close>.\<close>

record ThermalParams =
  Q_total :: real
  mdot :: real
  Tin :: real
  cp :: real
  R_contact :: real
  t_plate :: real
  k_plate :: real
  A_porous :: real
  A_outlet :: real
  h_porous :: real
  h_outlet :: real
  Tcpu_target :: "real option"
  Q1_target :: "real option"

text \<open>The dataclass \<open>ThermalResults\<close>.\<close>

record ThermalResults =
  Tcpu :: real
  T_plate :: real
  Q :: vec2
  Tbulk :: vec2
  Twall :: vec2
  Tout :: real
  Rpaths :: vec2
  R_contact :: real

text \<open>
  The ways a call ends without a record of real numbers. \<open>ZeroDivisionError\<close> and
  \<open>TypeError\<close> (the subtraction of \<open>None\<close> from a number in
  \<open>calibration_residuals\<close>) are exceptions. \<open>NonFinite\<close> is no exception: the call
  returns its object, but a number in it is \<open>inf\<close> or \<open>nan\<close>. The source defines no
  exception class of its own.
\<close>

datatype failure = ZeroDivisionError | TypeError | NonFinite

section \<open>The root finder\<close>

text \<open>
  \<open>scipy.optimize.fsolve\<close> is a library routine (MINPACK's hybrd) outside the
  repository, so it is a parameter of the model. Both call sites use
  \<open>full_output=False\<close>, for which \<open>fsolve\<close> returns the final iterate alone; the status
  flag \<open>ier\<close> (\<open>1\<close> when a solution was found) only decides whether a warning is
  emitted.

  The routine is one function of the residual function, its extra arguments, the initial
  guess and \<open>xtol\<close>. The model has it in two parts, by what the forward model hands
  over:
  \<^item> \<open>on_finite\<close>, for a finite guess and a residual function that is finite at every
    finite state: from the residual function over the reals, the guess and \<open>xtol\<close> to
    a finite iterate and the status;
  \<^item> \<open>on_nonfinite\<close>, for a guess that holds \<open>inf\<close> or \<open>nan\<close>, or residuals that
    divide by a zero path resistance: from the extra arguments
    \<open>(Qtot, mdot, cp, Tin, Rpaths, R_contact)\<close> of \<open>residuals_2zone\<close>, the guess and
    \<open>xtol\<close> to an iterate that may hold non-finite numbers, and the status.
\<close>

type_synonym root_finder = "(vec2 \<Rightarrow> vec2) \<Rightarrow> vec2 \<Rightarrow> real \<Rightarrow> vec2 \<times> int"

type_synonym nonfinite_finder =
  "real \<times> real \<times> real \<times> real \<times> vec2 \<times> real \<Rightarrow> real \<times> np_float \<Rightarrow> real
     \<Rightarrow> (np_float \<times> np_float) \<times> int"

record solver =
  on_finite :: root_finder
  on_nonfinite :: nonfinite_finder

definition fsolve :: "solver \<Rightarrow> (vec2 \<Rightarrow> vec2) \<Rightarrow> vec2 \<Rightarrow> real \<Rightarrow> vec2" where
  "fsolve hybrd func x0 xtol = fst (on_finite hybrd func x0 xtol)"

definition fsolve_nonfinite ::
  "solver \<Rightarrow> real \<times> real \<times> real \<times> real \<times> vec2 \<times> real \<Rightarrow> real \<times> np_float \<Rightarrow> real
     \<Rightarrow> np_float \<times> np_float" where
  "fsolve_nonfinite hybrd args x0 xtol = fst (on_nonfinite hybrd args x0 xtol)"

text \<open>
  A solver to run the model with. On a finite problem it takes one Newton step with the
  Jacobian from forward differences of step 1: the residuals below are affine in \<open>x\<close>,
  so the differences are the exact Jacobian and the step lands on the root; with a
  singular Jacobian it gives up at the initial guess and reports \<open>ier = 4\<close>. On a
  non-finite problem it gives up at the initial guess as well.
\<close>

definition newton :: root_finder where
  "newton func x0 xtol =
     (let f = func x0;
          a = func (fst x0 + 1, snd x0);
          b = func (fst x0, snd x0 + 1);
          j11 = fst a - fst f; j21 = snd a - snd f;
          j12 = fst b - fst f; j22 = snd b - snd f;
          det = j11 * j22 - j12 * j21
      in if det = 0 then (x0, 4)
         else ((fst x0 - (j22 * fst f - j12 * snd f) / det,
                snd x0 - (j11 * snd f - j21 * fst f) / det), 1))"

definition keep_guess :: nonfinite_finder where
  "keep_guess args x0 xtol = ((Some (fst x0), snd x0), 4)"

definition newton_step :: solver where
  "newton_step = \<lparr>on_finite = newton, on_nonfinite = keep_guess\<rparr>"

section \<open>The forward model\<close>

text \<open>
  \<open>residuals_2zone\<close>. Local names that clash with a record field carry a prime. The
  divisions are numpy's and never raise.
\<close>

definition residuals_2zone ::
  "vec2 \<Rightarrow> real \<Rightarrow> real \<Rightarrow> real \<Rightarrow> real \<Rightarrow> vec2 \<Rightarrow> real \<Rightarrow> vec2" where
  "residuals_2zone x Qtot mdot' cp' Tin' Rpaths' R_contact' =
     (let Tcpu' = fst x;
          Q1 = snd x;
          Q2 = Qtot - Q1;
          T_plate' = Tcpu' - Qtot * R_contact';
          Tb1 = Tin' + Q1 / (mdot' * cp');
          Tb2 = Tb1 + Q2 / (mdot' * cp');
          Q1_pred = (T_plate' - Tb1) / fst Rpaths';
          Q2_pred = (T_plate' - Tb2) / snd Rpaths'
      in (Q1 - Q1_pred, Q2 - Q2_pred))"

text \<open>
  \<open>coldplate_2zone_model\<close>, in state-passing style: Python hands the function a
  reference to the caller's \<open>ThermalParams\<close> object, so the model returns the object as
  it is when the call ends, next to the outcome. The body only reads the object.

  The fields hold Python floats, as the dataclass declares them and \<open>main\<close> builds
  them, so the five scalar divisions raise \<open>ZeroDivisionError\<close> on a zero divisor; all
  five come before the first numpy division. Past them the function never raises and
  always returns its object.

  \<open>1.0 / Rpaths\<close> and \<open>w / np.sum(w)\<close> are numpy divisions. With both path
  resistances and the sum of their reciprocals nonzero they are divisions of reals.
  Otherwise: with \<open>Rpath1 \<noteq> 0\<close> and \<open>Rpath2 = 0\<close> the sum is \<open>inf\<close>, the first weight is
  \<open>(1 / Rpath1) / inf = 0\<close> and \<open>Q1_0 = 0\<close>; with \<open>Rpath1 = 0\<close> the first weight is
  \<open>inf / inf = nan\<close>; with a zero sum of nonzero reciprocals it is \<open>(1 / Rpath1) / 0\<close>,
  infinite; in the last two cases \<open>Q1_0\<close> is not finite. \<open>Tcpu0\<close> is finite in every
  case. The record is then assembled from the iterate; it is a record of reals when the
  iterate is finite.
\<close>

definition coldplate_2zone_model ::
  "solver \<Rightarrow> ThermalParams \<Rightarrow> ThermalParams \<times> (failure + ThermalResults)" where
  "coldplate_2zone_model hybrd params =
     (let Qtot = Q_total params;
          A1 = A_porous params;
          A2 = A_outlet params;
          h1 = h_porous params;
          h2 = h_outlet params
      in (params,
          if k_plate params * A1 = 0 \<or> k_plate params * A2 = 0 \<or> h1 * A1 = 0 \<or> h2 * A2 = 0
             \<or> mdot params * cp params = 0
          then Inl ZeroDivisionError
          else
            let Rcond1 = t_plate params / (k_plate params * A1);
                Rcond2 = t_plate params / (k_plate params * A2);
                Rconv1 = 1 / (h1 * A1);
                Rconv2 = 1 / (h2 * A2);
                Rpath1 = Rcond1 + Rconv1;
                Rpath2 = Rcond2 + Rconv2;
                Rpaths' = (Rpath1, Rpath2);
                Tout_guess = Tin params + Qtot / (mdot params * cp params);
                Tcpu0 = Tout_guess
                  + Qtot * (ThermalParams.R_contact params + min Rpath1 Rpath2);
                x_sol =
                  (if Rpath1 \<noteq> 0 \<and> Rpath2 \<noteq> 0 \<and> 1 / Rpath1 + 1 / Rpath2 \<noteq> 0
                   then
                     let w = (1 / Rpath1, 1 / Rpath2);
                         w = (fst w / (fst w + snd w), snd w / (fst w + snd w));
                         Q1_0 = fst w * Qtot;
                         x0 = (Tcpu0, Q1_0);
                         x = fsolve hybrd
                           (\<lambda>x. residuals_2zone x Qtot (mdot params) (cp params) (Tin params)
                                  Rpaths' (ThermalParams.R_contact params))
                           x0 (1 / 10 ^ 9)
                     in (Some (fst x), Some (snd x))
                   else
                     let Q1_0 = (if Rpath1 \<noteq> 0 \<and> Rpath2 = 0 then Some 0 else None);
                         x0 = (Tcpu0, Q1_0)
                     in fsolve_nonfinite hybrd
                          (Qtot, mdot params, cp params, Tin params, Rpaths',
                           ThermalParams.R_contact params)
                          x0 (1 / 10 ^ 9))
            in case x_sol of
                 (Some Tcpu', Some Q1) \<Rightarrow>
                   let Q2 = Qtot - Q1;
                       Tb1 = Tin params + Q1 / (mdot params * cp params);
                       Tb2 = Tb1 + Q2 / (mdot params * cp params);
                       Tout' = Tb2;
                       T_plate' = Tcpu' - Qtot * ThermalParams.R_contact params;
                       Tw1 = T_plate' - Q1 * Rcond1;
                       Tw2 = T_plate' - Q2 * Rcond2
                   in Inr \<lparr>Tcpu = Tcpu', T_plate = T_plate', Q = (Q1, Q2),
                           Tbulk = (Tb1, Tb2), Twall = (Tw1, Tw2), Tout = Tout',
                           Rpaths = Rpaths', R_contact = ThermalParams.R_contact params\<rparr>
               | _ \<Rightarrow> Inl NonFinite))"

section \<open>The calibration residual\<close>

text \<open>
  \<open>calibration_residuals\<close>, the same function in both source files. It assigns the two
  coefficient fields of the caller's object before it runs the forward model; an
  exception of the forward model leaves the assignments in place. After the assignments
  the coefficient fields hold numpy scalars, for which \<open>1 / (h * A)\<close> with a zero
  product is \<open>inf\<close> rather than an exception: the forward model then goes on with an
  infinite path resistance, whose sign is that of the floating-point zero. The model
  does not follow this case; it reports \<open>NonFinite\<close> there when no Python division has
  raised before. A target left at \<open>None\<close> raises \<open>TypeError\<close> in the subtraction.
\<close>

definition calibration_residuals ::
  "solver \<Rightarrow> vec2 \<Rightarrow> ThermalParams \<Rightarrow> ThermalParams \<times> (failure + vec2)" where
  "calibration_residuals hybrd h params =
     (let params = params\<lparr>h_porous := fst h\<rparr>;
          params = params\<lparr>h_outlet := snd h\<rparr>;
          (params, outcome) = coldplate_2zone_model hybrd params
      in (params,
          case outcome of
            Inl e \<Rightarrow>
              if k_plate params * A_porous params \<noteq> 0 \<and> k_plate params * A_outlet params \<noteq> 0
                 \<and> mdot params * cp params \<noteq> 0
              then Inl NonFinite else Inl e
          | Inr result \<Rightarrow>
              (case Tcpu_target params of
                 None \<Rightarrow> Inl TypeError
               | Some Tcpu_t \<Rightarrow>
                   (case Q1_target params of
                      None \<Rightarrow> Inl TypeError
                    | Some Q1_t \<Rightarrow> Inr (Tcpu result - Tcpu_t, fst (Q result) - Q1_t)))))"

section \<open>The specification's formulas\<close>

text \<open>
  The quantities of the specification's forward solver, written from its sentences, to
  compare the code with.
\<close>

definition spec_Tplate :: "real \<Rightarrow> real \<Rightarrow> real \<Rightarrow> real" where
  "spec_Tplate Tcpu' Qtot Rcontact = Tcpu' - Qtot * Rcontact"

definition spec_Tb1 :: "real \<Rightarrow> real \<Rightarrow> real \<Rightarrow> real \<Rightarrow> real" where
  "spec_Tb1 Tin' Q1 mdot' cp' = Tin' + Q1 / (mdot' * cp')"

definition spec_Tb2 :: "real \<Rightarrow> real \<Rightarrow> real \<Rightarrow> real \<Rightarrow> real \<Rightarrow> real" where
  "spec_Tb2 Tin' Q1 Q2 mdot' cp' = spec_Tb1 Tin' Q1 mdot' cp' + Q2 / (mdot' * cp')"

definition spec_Rcond :: "real \<Rightarrow> real \<Rightarrow> real \<Rightarrow> real" where
  "spec_Rcond thickness conductivity area = thickness / (conductivity * area)"

definition spec_Rconv :: "real \<Rightarrow> real \<Rightarrow> real" where
  "spec_Rconv coefficient area = 1 / (coefficient * area)"

definition spec_Rpath :: "real \<Rightarrow> real \<Rightarrow> real \<Rightarrow> real \<Rightarrow> real" where
  "spec_Rpath thickness conductivity area coefficient =
     spec_Rcond thickness conductivity area + spec_Rconv coefficient area"

definition spec_Tout_guess :: "real \<Rightarrow> real \<Rightarrow> real \<Rightarrow> real \<Rightarrow> real" where
  "spec_Tout_guess Tin' Qtot mdot' cp' = Tin' + Qtot / (mdot' * cp')"

definition spec_Tcpu0 ::
  "real \<Rightarrow> real \<Rightarrow> real \<Rightarrow> real \<Rightarrow> real \<Rightarrow> real \<Rightarrow> real \<Rightarrow> real" where
  "spec_Tcpu0 Tin' Qtot mdot' cp' Rcontact Rpath1 Rpath2 =
     spec_Tout_guess Tin' Qtot mdot' cp' + Qtot * (Rcontact + min Rpath1 Rpath2)"

definition spec_w1 :: "real \<Rightarrow> real \<Rightarrow> real" where
  "spec_w1 Rpath1 Rpath2 = (1 / Rpath1) / (\<Sum>R \<leftarrow> [Rpath1, Rpath2]. 1 / R)"

definition spec_Q1_0 :: "real \<Rightarrow> real \<Rightarrow> real \<Rightarrow> real" where
  "spec_Q1_0 Qtot Rpath1 Rpath2 = spec_w1 Rpath1 Rpath2 * Qtot"

text \<open>
  The two path resistances and the initial guess of a scenario, and the record that the
  specification's state assembly derives from the two unknowns \<open>(Tcpu, Q1)\<close>.
\<close>

definition spec_Rpaths :: "ThermalParams \<Rightarrow> vec2" where
  "spec_Rpaths p = (spec_Rpath (t_plate p) (k_plate p) (A_porous p) (h_porous p),
                    spec_Rpath (t_plate p) (k_plate p) (A_outlet p) (h_outlet p))"

definition spec_guess :: "ThermalParams \<Rightarrow> vec2" where
  "spec_guess p =
     (spec_Tcpu0 (Tin p) (Q_total p) (mdot p) (cp p) (ThermalParams.R_contact p)
        (fst (spec_Rpaths p)) (snd (spec_Rpaths p)),
      spec_Q1_0 (Q_total p) (fst (spec_Rpaths p)) (snd (spec_Rpaths p)))"

definition spec_assemble :: "ThermalParams \<Rightarrow> vec2 \<Rightarrow> ThermalResults" where
  "spec_assemble p x =
     (let Tcpu' = fst x; Q1 = snd x; Q2 = Q_total p - Q1;
          Tplate = spec_Tplate Tcpu' (Q_total p) (ThermalParams.R_contact p)
      in \<lparr>Tcpu = Tcpu', T_plate = Tplate, Q = (Q1, Q2),
          Tbulk = (spec_Tb1 (Tin p) Q1 (mdot p) (cp p), spec_Tb2 (Tin p) Q1 Q2 (mdot p) (cp p)),
          Twall = (Tplate - Q1 * spec_Rcond (t_plate p) (k_plate p) (A_porous p),
                   Tplate - Q2 * spec_Rcond (t_plate p) (k_plate p) (A_outlet p)),
          Tout = spec_Tb2 (Tin p) Q1 Q2 (mdot p) (cp p),
          Rpaths = spec_Rpaths p, R_contact = ThermalParams.R_contact p\<rparr>)"

section \<open>Divisions by zero\<close>

text \<open>
  The two tests of \<open>coldplate_2zone_model\<close> as predicates on the parameters: a Python
  division by zero, and a numpy division by zero in the conductance weights.
\<close>

definition zero_divisor :: "ThermalParams \<Rightarrow> bool" where
  "zero_divisor p \<longleftrightarrow>
     k_plate p * A_porous p = 0 \<or> k_plate p * A_outlet p = 0 \<or> h_porous p * A_porous p = 0
     \<or> h_outlet p * A_outlet p = 0 \<or> mdot p * cp p = 0"

definition non_finite_weights :: "ThermalParams \<Rightarrow> bool" where
  "non_finite_weights p \<longleftrightarrow>
     (let Rpath1 = t_plate p / (k_plate p * A_porous p) + 1 / (h_porous p * A_porous p);
          Rpath2 = t_plate p / (k_plate p * A_outlet p) + 1 / (h_outlet p * A_outlet p)
      in Rpath1 = 0 \<or> Rpath2 = 0 \<or> 1 / Rpath1 + 1 / Rpath2 = 0)"

text \<open>
  What \<open>coldplate_2zone_model\<close> hands to \<open>fsolve\<close> when the weights are not finite:
  the extra arguments of the residual function, and the guess, whose second component
  is \<open>0\<close> for \<open>Rpath1 \<noteq> 0\<close>, \<open>Rpath2 = 0\<close> and not finite otherwise.
\<close>

definition solver_args :: "ThermalParams \<Rightarrow> real \<times> real \<times> real \<times> real \<times> vec2 \<times> real" where
  "solver_args p =
     (Q_total p, mdot p, cp p, Tin p, spec_Rpaths p, ThermalParams.R_contact p)"

definition nonfinite_guess :: "ThermalParams \<Rightarrow> real \<times> np_float" where
  "nonfinite_guess p =
     (Tin p + Q_total p / (mdot p * cp p)
        + Q_total p * (ThermalParams.R_contact p + min (fst (spec_Rpaths p)) (snd (spec_Rpaths p))),
      if fst (spec_Rpaths p) \<noteq> 0 \<and> snd (spec_Rpaths p) = 0 then Some 0 else None)"

section \<open>Scenarios\<close>

text \<open>The baseline of \<open>main\<close> in \<open>coldplate_thermal_analysis.py\<close>.\<close>

definition params_base :: ThermalParams where
  "params_base = \<lparr>Q_total = 250, mdot = 1 / 100, Tin = 300, cp = 418172 / 100,
     R_contact = 1414028 / 10 ^ 7, t_plate = 762 / 10 ^ 6, k_plate = 398,
     A_porous = 127 / 10 ^ 6, A_outlet = 291 / 10 ^ 6, h_porous = 1180000, h_outlet = 6990,
     Tcpu_target = None, Q1_target = None\<rparr>"

text \<open>
  The record that \<open>calibrate_h_values.py\<close> builds, with its placeholder coefficients
  and its targets, and the initial guess \<open>h0\<close> of its calibration.
\<close>

definition params_calibrate :: ThermalParams where
  "params_calibrate = \<lparr>Q_total = 250, mdot = 1 / 100, Tin = 300, cp = 418172 / 100,
     R_contact = 1414028 / 10 ^ 7, t_plate = 762 / 10 ^ 6, k_plate = 398,
     A_porous = 0 + 636 / 10 ^ 7 + 636 / 10 ^ 7,
     A_outlet = 192 / 10 ^ 6 + 419 / 10 ^ 7 + 419 / 10 ^ 7 + 783 / 10 ^ 8 + 783 / 10 ^ 8
       + 122 / 10 ^ 16 + 122 / 10 ^ 16,
     h_porous = 100000, h_outlet = 1000,
     Tcpu_target = Some (3463 / 10), Q1_target = Some 240\<rparr>"

definition h0 :: vec2 where
  "h0 = (27500, 1500)"

text \<open>
  Small scenarios with exact results. \<open>params_sym\<close> is valid and has equal path
  resistances \<open>1\<close>; \<open>params_uneven\<close> is valid with path resistances \<open>1\<close> and \<open>3 / 4\<close>;
  \<open>params_neg_area\<close> has a negative area; \<open>params_zero_area\<close> has a zero area;
  \<open>params_neg_coefficient\<close> has a negative coefficient that makes the second path
  resistance zero;
  \<open>params_no_root\<close> has negative coefficients, path resistances \<open>- 1 / 2\<close> and a
  residual system without any root (its two residuals differ by \<open>Q_total\<close> everywhere).
\<close>

definition params_sym :: ThermalParams where
  "params_sym = \<lparr>Q_total = 3, mdot = 1, Tin = 300, cp = 1, R_contact = 1, t_plate = 1,
     k_plate = 2, A_porous = 1, A_outlet = 1, h_porous = 2, h_outlet = 2,
     Tcpu_target = None, Q1_target = None\<rparr>"

definition params_uneven :: ThermalParams where
  "params_uneven = \<lparr>Q_total = 3, mdot = 1, Tin = 300, cp = 1, R_contact = 1, t_plate = 1,
     k_plate = 2, A_porous = 1, A_outlet = 2, h_porous = 2, h_outlet = 1,
     Tcpu_target = None, Q1_target = None\<rparr>"

definition params_neg_area :: ThermalParams where
  "params_neg_area = \<lparr>Q_total = 3, mdot = 1, Tin = 300, cp = 1, R_contact = 1, t_plate = 1,
     k_plate = 2, A_porous = - 2, A_outlet = 1, h_porous = 2, h_outlet = 2,
     Tcpu_target = None, Q1_target = None\<rparr>"

definition params_zero_area :: ThermalParams where
  "params_zero_area = \<lparr>Q_total = 3, mdot = 1, Tin = 300, cp = 1, R_contact = 1, t_plate = 1,
     k_plate = 2, A_porous = 0, A_outlet = 1, h_porous = 2, h_outlet = 2,
     Tcpu_target = None, Q1_target = None\<rparr>"

definition params_neg_coefficient :: ThermalParams where
  "params_neg_coefficient = \<lparr>Q_total = 3, mdot = 1, Tin = 300, cp = 1, R_contact = 1,
     t_plate = 1, k_plate = 2, A_porous = 1, A_outlet = 1, h_porous = 2, h_outlet = - 2,
     Tcpu_target = None, Q1_target = None\<rparr>"

definition params_no_root :: ThermalParams where
  "params_no_root = \<lparr>Q_total = 3, mdot = 1, Tin = 300, cp = 1, R_contact = 1, t_plate = 1,
     k_plate = 2, A_porous = 1, A_outlet = 1, h_porous = - 1, h_outlet = - 1,
     Tcpu_target = None, Q1_target = None\<rparr>"

section \<open>Shared facts about the forward model\<close>

lemma coldplate_outcome:
  "snd (coldplate_2zone_model hybrd p) = Inl ZeroDivisionError \<longleftrightarrow> zero_divisor p"
  "snd (coldplate_2zone_model hybrd p) \<noteq> Inl TypeError"
  by (simp_all add: coldplate_2zone_model_def zero_divisor_def Let_def
      split: prod.split option.split)

lemma coldplate_regular:
  assumes "\<not> zero_divisor p" "\<not> non_finite_weights p"
  shows "\<exists>r. snd (coldplate_2zone_model hybrd p) = Inr r"
  using assms
  by (simp add: coldplate_2zone_model_def zero_divisor_def non_finite_weights_def Let_def)

lemma coldplate_Inr:
  assumes "snd (coldplate_2zone_model hybrd p) = Inr r"
  shows "Rpaths r = (spec_Rpath (t_plate p) (k_plate p) (A_porous p) (h_porous p),
                     spec_Rpath (t_plate p) (k_plate p) (A_outlet p) (h_outlet p))"
    and "\<not> zero_divisor p"
    and "snd (Q r) = Q_total p - fst (Q r)"
    and "T_plate r = Tcpu r - Q_total p * ThermalParams.R_contact p"
    and "Tbulk r = (Tin p + fst (Q r) / (mdot p * cp p),
                    Tin p + fst (Q r) / (mdot p * cp p) + snd (Q r) / (mdot p * cp p))"
    and "Tout r = snd (Tbulk r)"
    and "Twall r = (T_plate r - fst (Q r) * spec_Rcond (t_plate p) (k_plate p) (A_porous p),
                    T_plate r - snd (Q r) * spec_Rcond (t_plate p) (k_plate p) (A_outlet p))"
    and "ThermalResults.R_contact r = ThermalParams.R_contact p"
  using assms
  by (auto simp add: coldplate_2zone_model_def Let_def zero_divisor_def spec_Rpath_def
      spec_Rcond_def spec_Rconv_def split: if_splits prod.splits option.splits)

lemma coldplate_guess:
  assumes "snd (coldplate_2zone_model hybrd p) = Inr r"
    and "fst (Rpaths r) \<noteq> 0" "snd (Rpaths r) \<noteq> 0"
    and "1 / fst (Rpaths r) + 1 / snd (Rpaths r) \<noteq> 0"
  shows "(Tcpu r, fst (Q r)) =
           fsolve hybrd
             (\<lambda>x. residuals_2zone x (Q_total p) (mdot p) (cp p) (Tin p) (Rpaths r)
                    (ThermalParams.R_contact p))
             (spec_Tcpu0 (Tin p) (Q_total p) (mdot p) (cp p) (ThermalParams.R_contact p)
                (fst (Rpaths r)) (snd (Rpaths r)),
              spec_Q1_0 (Q_total p) (fst (Rpaths r)) (snd (Rpaths r)))
             (1 / 10 ^ 9)"
  using assms
  by (auto simp add: coldplate_2zone_model_def Let_def spec_Tcpu0_def spec_Tout_guess_def
      spec_Q1_0_def spec_w1_def split: if_splits prod.splits option.splits)

lemma coldplate_returns:
  assumes "\<not> zero_divisor p"
  shows "snd (coldplate_2zone_model hybrd p) =
     (if non_finite_weights p
      then (case fsolve_nonfinite hybrd (solver_args p) (nonfinite_guess p) (1 / 10 ^ 9) of
              (Some Tcpu', Some Q1) \<Rightarrow> Inr (spec_assemble p (Tcpu', Q1))
            | _ \<Rightarrow> Inl NonFinite)
      else Inr (spec_assemble p
             (fsolve hybrd
                (\<lambda>x. residuals_2zone x (Q_total p) (mdot p) (cp p) (Tin p) (spec_Rpaths p)
                       (ThermalParams.R_contact p))
                (spec_guess p) (1 / 10 ^ 9))))"
  using assms
  by (simp add: coldplate_2zone_model_def zero_divisor_def non_finite_weights_def Let_def
      spec_assemble_def spec_Rpaths_def spec_guess_def solver_args_def nonfinite_guess_def
      spec_Rpath_def spec_Rcond_def spec_Rconv_def spec_Tcpu0_def spec_Tout_guess_def
      spec_Q1_0_def spec_w1_def spec_Tplate_def spec_Tb1_def spec_Tb2_def
      split: prod.split option.split)

lemma calibration_residuals_fst:
  "fst (calibration_residuals hybrd h params) = params\<lparr>h_porous := fst h, h_outlet := snd h\<rparr>"
  by (simp add: calibration_residuals_def coldplate_2zone_model_def Let_def)

lemma valid_returns:
  assumes "0 < t_plate p" "0 < k_plate p" "0 < A_porous p" "0 < A_outlet p"
    "0 < h_porous p" "0 < h_outlet p" "0 < mdot p" "0 < cp p"
  shows "\<exists>r. snd (coldplate_2zone_model hybrd p) = Inr r"
proof -
  have z: "\<not> zero_divisor p"
    using assms by (simp add: zero_divisor_def)
  let ?R1 = "t_plate p / (k_plate p * A_porous p) + 1 / (h_porous p * A_porous p)"
  let ?R2 = "t_plate p / (k_plate p * A_outlet p) + 1 / (h_outlet p * A_outlet p)"
  have "0 < ?R1" "0 < ?R2"
    using assms by (simp_all add: add_pos_pos)
  then have "0 < 1 / ?R1 + 1 / ?R2" "?R1 \<noteq> 0" "?R2 \<noteq> 0"
    by (simp_all add: add_pos_pos)
  then have "\<not> non_finite_weights p"
    by (simp add: non_finite_weights_def Let_def)
  with z show ?thesis
    by (rule coldplate_regular)
qed

lemma even_resistance_split:
  assumes "residuals_2zone (T, Q1) Qtot m c Ti (R, R) Rc = (0, 0)"
  shows "(Qtot - Q1) * (2 + 1 / (m * c * R)) = Qtot"
    and "Q1 = (Qtot - Q1) * (1 + 1 / (m * c * R))"
proof -
  let ?Q2 = "Qtot - Q1"
  let ?Tp = "T - Qtot * Rc"
  let ?Tb1 = "Ti + Q1 / (m * c)"
  from assms have f1: "Q1 = (?Tp - ?Tb1) / R"
    and f2: "?Q2 = (?Tp - (?Tb1 + ?Q2 / (m * c))) / R"
    by (simp_all add: residuals_2zone_def Let_def)
  have "Q1 - ?Q2 = (?Tp - ?Tb1) / R - (?Tp - (?Tb1 + ?Q2 / (m * c))) / R"
    using f1 f2 by simp
  also have "\<dots> = (?Q2 / (m * c)) / R"
    by (simp add: diff_divide_distrib[symmetric])
  finally have "Q1 - ?Q2 = ?Q2 / (m * c * R)"
    by simp
  then show a: "Q1 = ?Q2 * (1 + 1 / (m * c * R))"
    by (simp add: algebra_simps)
  have "?Q2 * (2 + 1 / (m * c * R)) = ?Q2 + ?Q2 * (1 + 1 / (m * c * R))"
    by (simp add: algebra_simps)
  also have "\<dots> = ?Q2 + Q1"
    using a by simp
  finally show "?Q2 * (2 + 1 / (m * c * R)) = Qtot"
    by simp
qed

section \<open>The Newton step on the residuals\<close>

text \<open>
  The residuals are affine in the state vector, and on an affine system with a regular
  matrix \<open>newton\<close> returns the root and reports \<open>ier = 1\<close>.
\<close>

lemma newton_affine:
  assumes f: "\<And>x. func x = (a * fst x + b * snd x + e, c * fst x + d * snd x + g)"
    and det: "a * d - b * c \<noteq> 0"
  shows "func (fst (newton func x0 xtol)) = (0, 0)" and "snd (newton func x0 xtol) = 1"
proof -
  obtain u v where x0: "x0 = (u, v)" by (cases x0)
  let ?f1 = "a * u + b * v + e" and ?f2 = "c * u + d * v + g"
  let ?D = "a * d - b * c"
  have n: "newton func x0 xtol =
      ((u - (d * ?f1 - b * ?f2) / ?D, v - (a * ?f2 - c * ?f1) / ?D), 1)"
    using det by (simp add: newton_def Let_def f x0 algebra_simps)
  show "snd (newton func x0 xtol) = 1" by (simp add: n)
  have "a * (u - (d * ?f1 - b * ?f2) / ?D) + b * (v - (a * ?f2 - c * ?f1) / ?D) + e
      = ?f1 - (a * (d * ?f1 - b * ?f2) + b * (a * ?f2 - c * ?f1)) / ?D"
    by (simp add: algebra_simps add_divide_distrib diff_divide_distrib)
  also have "a * (d * ?f1 - b * ?f2) + b * (a * ?f2 - c * ?f1) = ?D * ?f1"
    by (simp add: algebra_simps)
  finally have 1: "a * (u - (d * ?f1 - b * ?f2) / ?D) + b * (v - (a * ?f2 - c * ?f1) / ?D) + e = 0"
    using det by simp
  have "c * (u - (d * ?f1 - b * ?f2) / ?D) + d * (v - (a * ?f2 - c * ?f1) / ?D) + g
      = ?f2 - (c * (d * ?f1 - b * ?f2) + d * (a * ?f2 - c * ?f1)) / ?D"
    by (simp add: algebra_simps add_divide_distrib diff_divide_distrib)
  also have "c * (d * ?f1 - b * ?f2) + d * (a * ?f2 - c * ?f1) = ?D * ?f2"
    by (simp add: algebra_simps)
  finally have 2: "c * (u - (d * ?f1 - b * ?f2) / ?D) + d * (v - (a * ?f2 - c * ?f1) / ?D) + g = 0"
    using det by simp
  show "func (fst (newton func x0 xtol)) = (0, 0)"
    by (simp only: n fst_conv snd_conv f 1 2)
qed

lemma residuals_2zone_affine:
  "residuals_2zone x Qtot m c Ti (R1, R2) Rc =
     ((- (1 / R1)) * fst x + (1 + 1 / (m * c) / R1) * snd x + (Qtot * Rc + Ti) / R1,
      (- (1 / R2)) * fst x + (- 1) * snd x + (Qtot + (Qtot * Rc + Ti + Qtot / (m * c)) / R2))"
  by (simp add: residuals_2zone_def Let_def algebra_simps add_divide_distrib diff_divide_distrib)

lemma newton_root:
  assumes "1 / R1 + (1 + 1 / (m * c) / R1) / R2 \<noteq> 0"
  shows "residuals_2zone
           (fst (newton (\<lambda>x. residuals_2zone x Qtot m c Ti (R1, R2) Rc) x0 xtol))
           Qtot m c Ti (R1, R2) Rc = (0, 0)"
    and "snd (newton (\<lambda>x. residuals_2zone x Qtot m c Ti (R1, R2) Rc) x0 xtol) = 1"
proof -
  have d: "(- (1 / R1)) * (- 1) - (1 + 1 / (m * c) / R1) * (- (1 / R2)) \<noteq> 0"
  proof -
    have "(- (1 / R1)) * (- 1) - B * (- (1 / R2)) = 1 / R1 + B / R2" for B :: real
      by simp
    from this[of "1 + 1 / (m * c) / R1"] assms show ?thesis
      by (simp only: not_False_eq_True)
  qed
  show "residuals_2zone
           (fst (newton (\<lambda>x. residuals_2zone x Qtot m c Ti (R1, R2) Rc) x0 xtol))
           Qtot m c Ti (R1, R2) Rc = (0, 0)"
    by (rule newton_affine(1)
        [where func = "\<lambda>x. residuals_2zone x Qtot m c Ti (R1, R2) Rc",
          OF residuals_2zone_affine d])
  show "snd (newton (\<lambda>x. residuals_2zone x Qtot m c Ti (R1, R2) Rc) x0 xtol) = 1"
    by (rule newton_affine(2)
        [where func = "\<lambda>x. residuals_2zone x Qtot m c Ti (R1, R2) Rc",
          OF residuals_2zone_affine d])
qed

section \<open>The residual function\<close>

text \<open>
  C1. The residual function of the code is the specification's pair: with
  \<open>Q2 = Qtot - Q1\<close>, \<open>Tplate = Tcpu - Qtot * Rcontact\<close>, \<open>Tb1 = Tin + Q1 / (mdot * cp)\<close>
  and \<open>Tb2 = Tb1 + Q2 / (mdot * cp)\<close>, it returns
  \<open>[Q1 - (Tplate - Tb1) / Rpath1, Q2 - (Tplate - Tb2) / Rpath2]\<close>, for every state vector
  and every parameter set. Both sides perform the same divisions, so the equation does
  not depend on what a division by zero yields.
\<close>

theorem residuals_2zone_spec:
  "residuals_2zone (Tcpu', Q1) Qtot mdot' cp' Tin' (Rpath1, Rpath2) Rcontact =
     (Q1 - (spec_Tplate Tcpu' Qtot Rcontact - spec_Tb1 Tin' Q1 mdot' cp') / Rpath1,
      (Qtot - Q1)
        - (spec_Tplate Tcpu' Qtot Rcontact - spec_Tb2 Tin' Q1 (Qtot - Q1) mdot' cp') / Rpath2)"
  by (simp add: residuals_2zone_def spec_Tplate_def spec_Tb1_def spec_Tb2_def Let_def)

section \<open>Conservation of the heat split\<close>

text \<open>
  C2. Whenever the forward solve returns, the two components of the heat split add up to
  the total heat load, so they do within a relative tolerance of \<open>1e-6\<close>: the second
  component is computed as \<open>Qtot - Q1\<close>. This holds for every returned result, the
  converged ones of valid scenarios among them.
\<close>

theorem heat_split_conservation:
  assumes "snd (coldplate_2zone_model hybrd params) = Inr result"
  shows "fst (Q result) + snd (Q result) = Q_total params
    \<and> \<bar>fst (Q result) + snd (Q result) - Q_total params\<bar> \<le> 1 / 10 ^ 6 * \<bar>Q_total params\<bar>"
  using coldplate_Inr(3)[OF assms] by simp

theorem heat_split_conservation_witness:
  "\<exists>result. snd (coldplate_2zone_model newton_step params_base) = Inr result
     \<and> fst (Q result) + snd (Q result) = 250
     \<and> \<bar>fst (Q result) + snd (Q result) - 250\<bar> \<le> 1 / 10 ^ 6 * \<bar>250\<bar>"
proof -
  have "\<exists>r. snd (coldplate_2zone_model newton_step params_base) = Inr r"
    by (rule valid_returns) (simp_all add: params_base_def)
  then obtain r where r: "snd (coldplate_2zone_model newton_step params_base) = Inr r" ..
  from heat_split_conservation[OF r] have "fst (Q r) + snd (Q r) = 250"
    by (simp add: params_base_def)
  with r show ?thesis
    by auto
qed

section \<open>The resistance network\<close>

text \<open>
  C3. For positive thickness, conductivity, areas, coefficients, flow rate and specific
  heat the forward model returns, and the path resistances it returns are, per zone,
  \<open>thickness / (conductivity * area) + 1 / (coefficient * area)\<close>.
\<close>

theorem path_resistances:
  assumes "0 < t_plate p" "0 < k_plate p" "0 < A_porous p" "0 < A_outlet p"
    "0 < h_porous p" "0 < h_outlet p" "0 < mdot p" "0 < cp p"
  shows "\<exists>r. snd (coldplate_2zone_model hybrd p) = Inr r
    \<and> Rpaths r = (spec_Rpath (t_plate p) (k_plate p) (A_porous p) (h_porous p),
                   spec_Rpath (t_plate p) (k_plate p) (A_outlet p) (h_outlet p))"
proof -
  from valid_returns[OF assms] obtain r where
    r: "snd (coldplate_2zone_model hybrd p) = Inr r" ..
  with coldplate_Inr(1)[OF r] show ?thesis
    by blast
qed

theorem path_resistances_witness:
  "\<exists>r. snd (coldplate_2zone_model newton_step params_uneven) = Inr r
     \<and> Rpaths r = (spec_Rpath 1 2 1 2, spec_Rpath 1 2 2 1) \<and> Rpaths r = (1, 3 / 4)"
proof -
  have "\<exists>r. snd (coldplate_2zone_model newton_step params_uneven) = Inr r
     \<and> Rpaths r = (spec_Rpath (t_plate params_uneven) (k_plate params_uneven)
                      (A_porous params_uneven) (h_porous params_uneven),
                    spec_Rpath (t_plate params_uneven) (k_plate params_uneven)
                      (A_outlet params_uneven) (h_outlet params_uneven))"
    by (rule path_resistances) (simp_all add: params_uneven_def)
  then show ?thesis
    by (simp add: params_uneven_def spec_Rpath_def spec_Rcond_def spec_Rconv_def)
qed

section \<open>Non-positive areas and coefficients\<close>

text \<open>
  C4, as the specification states it, fails: the forward model validates nothing. With
  the negative area of \<open>params_neg_area\<close> it returns a result, built on the negative
  path resistance \<open>- 1 / 2\<close>.
\<close>

theorem negative_area_accepted:
  "A_porous params_neg_area \<le> 0
   \<and> snd (coldplate_2zone_model newton_step params_neg_area) =
       Inr \<lparr>Tcpu = 305, T_plate = 302, Q = (4, - 1), Tbulk = (304, 303),
            Twall = (303, 605 / 2), Tout = 303, Rpaths = (- (1 / 2), 1), R_contact = 1\<rparr>"
  by (simp add: coldplate_2zone_model_def params_neg_area_def Let_def fsolve_def
      newton_step_def newton_def residuals_2zone_def)

text \<open>
  C4, amended. The forward model validates neither areas nor coefficients. A zero area
  aborts it with Python's \<open>ZeroDivisionError\<close> and no partial result, and that is the
  only exception it raises, never without a zero divisor. When the areas, the
  coefficients, the conductivity, the flow rate and the specific heat are all nonzero,
  whatever their signs, it raises nothing and returns the record assembled from the
  iterate of the root finder, with the path resistances
  \<open>t / (k * A_i) + 1 / (h_i * A_i)\<close>; only an iterate that is not finite leaves no
  record of real numbers. What a zero coefficient does is left out: it depends on the
  kind of number the field holds.
\<close>

theorem no_validation:
  "(A_porous p = 0 \<or> A_outlet p = 0 \<longrightarrow>
      snd (coldplate_2zone_model hybrd p) = Inl ZeroDivisionError)
   \<and> (snd (coldplate_2zone_model hybrd p) = Inl ZeroDivisionError \<longrightarrow>
        k_plate p * A_porous p = 0 \<or> k_plate p * A_outlet p = 0 \<or> h_porous p * A_porous p = 0
        \<or> h_outlet p * A_outlet p = 0 \<or> mdot p * cp p = 0)
   \<and> (A_porous p \<noteq> 0 \<and> A_outlet p \<noteq> 0 \<and> h_porous p \<noteq> 0 \<and> h_outlet p \<noteq> 0
        \<and> k_plate p \<noteq> 0 \<and> mdot p \<noteq> 0 \<and> cp p \<noteq> 0 \<longrightarrow>
        snd (coldplate_2zone_model hybrd p) =
          (if non_finite_weights p
           then (case fsolve_nonfinite hybrd (solver_args p) (nonfinite_guess p) (1 / 10 ^ 9) of
                   (Some Tcpu', Some Q1) \<Rightarrow> Inr (spec_assemble p (Tcpu', Q1))
                 | _ \<Rightarrow> Inl NonFinite)
           else Inr (spec_assemble p
                  (fsolve hybrd
                     (\<lambda>x. residuals_2zone x (Q_total p) (mdot p) (cp p) (Tin p)
                            (spec_Rpaths p) (ThermalParams.R_contact p))
                     (spec_guess p) (1 / 10 ^ 9)))))"
proof -
  have 1: "snd (coldplate_2zone_model hybrd p) = Inl ZeroDivisionError"
    if "A_porous p = 0 \<or> A_outlet p = 0"
    using that by (auto simp add: coldplate_outcome(1) zero_divisor_def)
  have 2: "k_plate p * A_porous p = 0 \<or> k_plate p * A_outlet p = 0
      \<or> h_porous p * A_porous p = 0 \<or> h_outlet p * A_outlet p = 0 \<or> mdot p * cp p = 0"
    if "snd (coldplate_2zone_model hybrd p) = Inl ZeroDivisionError"
    using that by (simp add: coldplate_outcome(1) zero_divisor_def)
  have 3: "snd (coldplate_2zone_model hybrd p) =
          (if non_finite_weights p
           then (case fsolve_nonfinite hybrd (solver_args p) (nonfinite_guess p) (1 / 10 ^ 9) of
                   (Some Tcpu', Some Q1) \<Rightarrow> Inr (spec_assemble p (Tcpu', Q1))
                 | _ \<Rightarrow> Inl NonFinite)
           else Inr (spec_assemble p
                  (fsolve hybrd
                     (\<lambda>x. residuals_2zone x (Q_total p) (mdot p) (cp p) (Tin p)
                            (spec_Rpaths p) (ThermalParams.R_contact p))
                     (spec_guess p) (1 / 10 ^ 9))))"
    if "A_porous p \<noteq> 0 \<and> A_outlet p \<noteq> 0 \<and> h_porous p \<noteq> 0 \<and> h_outlet p \<noteq> 0
        \<and> k_plate p \<noteq> 0 \<and> mdot p \<noteq> 0 \<and> cp p \<noteq> 0"
  proof -
    from that have "\<not> zero_divisor p"
      by (simp add: zero_divisor_def)
    then show ?thesis
      by (rule coldplate_returns)
  qed
  from 1 2 3 show ?thesis
    by blast
qed

text \<open>
  The witness takes the zero area of \<open>params_zero_area\<close>, and the negative coefficient
  of \<open>params_neg_coefficient\<close>, for which the second path resistance is zero and the
  solver hands back the guess \<open>(306, 0)\<close>.
\<close>

theorem no_validation_witness:
  "A_porous params_zero_area = 0
   \<and> snd (coldplate_2zone_model newton_step params_zero_area) = Inl ZeroDivisionError
   \<and> A_porous params_neg_coefficient \<noteq> 0 \<and> A_outlet params_neg_coefficient \<noteq> 0
   \<and> h_porous params_neg_coefficient \<noteq> 0 \<and> h_outlet params_neg_coefficient < 0
   \<and> k_plate params_neg_coefficient \<noteq> 0 \<and> mdot params_neg_coefficient \<noteq> 0
   \<and> cp params_neg_coefficient \<noteq> 0
   \<and> non_finite_weights params_neg_coefficient
   \<and> fsolve_nonfinite newton_step (solver_args params_neg_coefficient)
        (nonfinite_guess params_neg_coefficient) (1 / 10 ^ 9) = (Some 306, Some 0)
   \<and> snd (coldplate_2zone_model newton_step params_neg_coefficient) =
       Inr (spec_assemble params_neg_coefficient (306, 0))
   \<and> spec_assemble params_neg_coefficient (306, 0) =
       \<lparr>Tcpu = 306, T_plate = 303, Q = (0, 3), Tbulk = (300, 303),
        Twall = (303, 603 / 2), Tout = 303, Rpaths = (1, 0), R_contact = 1\<rparr>"
proof -
  have a: "A_porous params_zero_area = 0"
    by (simp add: params_zero_area_def)
  with no_validation[of params_zero_area newton_step]
  have z: "snd (coldplate_2zone_model newton_step params_zero_area) = Inl ZeroDivisionError"
    by blast
  have n: "A_porous params_neg_coefficient \<noteq> 0 \<and> A_outlet params_neg_coefficient \<noteq> 0
      \<and> h_porous params_neg_coefficient \<noteq> 0 \<and> h_outlet params_neg_coefficient \<noteq> 0
      \<and> k_plate params_neg_coefficient \<noteq> 0 \<and> mdot params_neg_coefficient \<noteq> 0
      \<and> cp params_neg_coefficient \<noteq> 0"
    by (simp add: params_neg_coefficient_def)
  have neg: "h_outlet params_neg_coefficient < 0"
    by (simp add: params_neg_coefficient_def)
  have w: "non_finite_weights params_neg_coefficient"
    by (simp add: non_finite_weights_def params_neg_coefficient_def Let_def)
  have g: "fsolve_nonfinite newton_step (solver_args params_neg_coefficient)
        (nonfinite_guess params_neg_coefficient) (1 / 10 ^ 9) = (Some 306, Some 0)"
    by (simp add: fsolve_nonfinite_def newton_step_def keep_guess_def nonfinite_guess_def
        spec_Rpaths_def spec_Rpath_def spec_Rcond_def spec_Rconv_def
        params_neg_coefficient_def)
  from no_validation[of params_neg_coefficient newton_step] n
  have "snd (coldplate_2zone_model newton_step params_neg_coefficient) =
      (if non_finite_weights params_neg_coefficient
       then (case fsolve_nonfinite newton_step (solver_args params_neg_coefficient)
                   (nonfinite_guess params_neg_coefficient) (1 / 10 ^ 9) of
               (Some Tcpu', Some Q1) \<Rightarrow> Inr (spec_assemble params_neg_coefficient (Tcpu', Q1))
             | _ \<Rightarrow> Inl NonFinite)
       else Inr (spec_assemble params_neg_coefficient
              (fsolve newton_step
                 (\<lambda>x. residuals_2zone x (Q_total params_neg_coefficient)
                        (mdot params_neg_coefficient) (cp params_neg_coefficient)
                        (Tin params_neg_coefficient) (spec_Rpaths params_neg_coefficient)
                        (ThermalParams.R_contact params_neg_coefficient))
                 (spec_guess params_neg_coefficient) (1 / 10 ^ 9))))"
    by blast
  then have e: "snd (coldplate_2zone_model newton_step params_neg_coefficient) =
       Inr (spec_assemble params_neg_coefficient (306, 0))"
    by (simp only: w g if_True prod.case option.case)
  have r: "spec_assemble params_neg_coefficient (306, 0) =
       \<lparr>Tcpu = 306, T_plate = 303, Q = (0, 3), Tbulk = (300, 303),
        Twall = (303, 603 / 2), Tout = 303, Rpaths = (1, 0), R_contact = 1\<rparr>"
    by (simp add: spec_assemble_def spec_Rpaths_def spec_Rpath_def spec_Rcond_def
        spec_Rconv_def spec_Tplate_def spec_Tb1_def spec_Tb2_def Let_def
        params_neg_coefficient_def)
  from a z n neg w g e r show ?thesis
    by simp
qed

section \<open>Non-convergence\<close>

text \<open>
  C5, as the specification states it, fails: the status of the root finder is never
  looked at. On \<open>params_no_root\<close> the residual system has no root; the root finder gives
  up at its initial guess \<open>(609 / 2, 3 / 2)\<close>, where the residuals are
  \<open>(3 / 2, - 3 / 2)\<close>, and the forward model returns a result assembled from that
  iterate.
\<close>

theorem unconverged_iterate_returned:
  "snd (coldplate_2zone_model newton_step params_no_root) =
     Inr \<lparr>Tcpu = 609 / 2, T_plate = 603 / 2, Q = (3 / 2, 3 / 2), Tbulk = (603 / 2, 303),
          Twall = (1203 / 4, 1203 / 4), Tout = 303, Rpaths = (- (1 / 2), - (1 / 2)),
          R_contact = 1\<rparr>
   \<and> residuals_2zone (609 / 2, 3 / 2) 3 1 1 300 (- (1 / 2), - (1 / 2)) 1 = (3 / 2, - (3 / 2))"
  by (simp add: coldplate_2zone_model_def params_no_root_def Let_def fsolve_def
      newton_step_def newton_def residuals_2zone_def)

text \<open>
  C5, amended. The forward solve never fails for non-convergence. Its outcome is the same
  whatever status the root finder reports, and unless a divisor is zero it raises
  nothing: it returns the record assembled from the iterate the root finder handed back,
  a root or not; only an iterate that is not finite leaves no record of real numbers.
\<close>

theorem status_discarded:
  "coldplate_2zone_model
     \<lparr>on_finite = \<lambda>func x0 xtol. (fst (on_finite hybrd func x0 xtol), ier),
      on_nonfinite = \<lambda>args x0 xtol. (fst (on_nonfinite hybrd args x0 xtol), ier')\<rparr> params =
     coldplate_2zone_model hybrd params
   \<and> (\<not> zero_divisor params \<longrightarrow>
        snd (coldplate_2zone_model hybrd params) =
          (if non_finite_weights params
           then (case fsolve_nonfinite hybrd (solver_args params) (nonfinite_guess params)
                       (1 / 10 ^ 9) of
                   (Some Tcpu', Some Q1) \<Rightarrow> Inr (spec_assemble params (Tcpu', Q1))
                 | _ \<Rightarrow> Inl NonFinite)
           else Inr (spec_assemble params
                  (fsolve hybrd
                     (\<lambda>x. residuals_2zone x (Q_total params) (mdot params) (cp params)
                            (Tin params) (spec_Rpaths params) (ThermalParams.R_contact params))
                     (spec_guess params) (1 / 10 ^ 9)))))"
proof -
  have "coldplate_2zone_model
     \<lparr>on_finite = \<lambda>func x0 xtol. (fst (on_finite hybrd func x0 xtol), ier),
      on_nonfinite = \<lambda>args x0 xtol. (fst (on_nonfinite hybrd args x0 xtol), ier')\<rparr> params =
     coldplate_2zone_model hybrd params"
    by (simp add: coldplate_2zone_model_def fsolve_def fsolve_nonfinite_def Let_def)
  then show ?thesis
    using coldplate_returns[of params hybrd] by blast
qed

text \<open>
  The witness is the scenario without a root: the solver gives up at the guess
  \<open>(609 / 2, 3 / 2)\<close> with \<open>ier = 4\<close>, and the record is assembled from it all the
  same.
\<close>

theorem status_discarded_witness:
  "\<not> zero_divisor params_no_root \<and> \<not> non_finite_weights params_no_root
   \<and> on_finite newton_step
        (\<lambda>x. residuals_2zone x (Q_total params_no_root) (mdot params_no_root)
               (cp params_no_root) (Tin params_no_root) (spec_Rpaths params_no_root)
               (ThermalParams.R_contact params_no_root))
        (spec_guess params_no_root) (1 / 10 ^ 9) = ((609 / 2, 3 / 2), 4)
   \<and> snd (coldplate_2zone_model newton_step params_no_root) =
       Inr (spec_assemble params_no_root (609 / 2, 3 / 2))"
proof -
  have z: "\<not> zero_divisor params_no_root"
    by (simp add: zero_divisor_def params_no_root_def)
  have w: "\<not> non_finite_weights params_no_root"
    by (simp add: non_finite_weights_def params_no_root_def Let_def)
  have g: "on_finite newton_step
        (\<lambda>x. residuals_2zone x (Q_total params_no_root) (mdot params_no_root)
               (cp params_no_root) (Tin params_no_root) (spec_Rpaths params_no_root)
               (ThermalParams.R_contact params_no_root))
        (spec_guess params_no_root) (1 / 10 ^ 9) = ((609 / 2, 3 / 2), 4)"
    by (simp add: newton_step_def newton_def residuals_2zone_def Let_def spec_guess_def
        spec_Rpaths_def spec_Rpath_def spec_Rcond_def spec_Rconv_def spec_Tcpu0_def
        spec_Tout_guess_def spec_Q1_0_def spec_w1_def params_no_root_def)
  from status_discarded[of newton_step _ _ params_no_root] z w
  have "snd (coldplate_2zone_model newton_step params_no_root) =
      Inr (spec_assemble params_no_root
        (fsolve newton_step
           (\<lambda>x. residuals_2zone x (Q_total params_no_root) (mdot params_no_root)
                  (cp params_no_root) (Tin params_no_root) (spec_Rpaths params_no_root)
                  (ThermalParams.R_contact params_no_root))
           (spec_guess params_no_root) (1 / 10 ^ 9)))"
    by simp
  then have "snd (coldplate_2zone_model newton_step params_no_root) =
       Inr (spec_assemble params_no_root (609 / 2, 3 / 2))"
    by (simp only: fsolve_def g fst_conv)
  with z w g show ?thesis
    by simp
qed

section \<open>The initial guess\<close>

text \<open>
  C6. Whenever the forward model gets as far as the root finder with weights that the
  specification's formula defines (no path resistance zero, nor the sum of their
  reciprocals), it starts it, on the residual function, from the specification's initial
  guess
  \<open>Tcpu0 = Tout_guess + Qtot * (Rcontact + min Rpath1 Rpath2)\<close> with
  \<open>Tout_guess = Tin + Qtot / (mdot * cp)\<close>, and \<open>Q1_0 = w1 * Qtot\<close> with
  \<open>w1 = (1 / Rpath1) / (1 / Rpath1 + 1 / Rpath2)\<close>, and with \<open>xtol = 1e-9\<close>. The root
  finder is arbitrary, so this fixes the guess itself.
\<close>

theorem initial_guess:
  assumes "snd (coldplate_2zone_model hybrd p) = Inr r"
    and "fst (Rpaths r) \<noteq> 0" "snd (Rpaths r) \<noteq> 0"
    and "1 / fst (Rpaths r) + 1 / snd (Rpaths r) \<noteq> 0"
  shows "(Tcpu r, fst (Q r)) =
           fsolve hybrd
             (\<lambda>x. residuals_2zone x (Q_total p) (mdot p) (cp p) (Tin p) (Rpaths r)
                    (ThermalParams.R_contact p))
             (spec_Tcpu0 (Tin p) (Q_total p) (mdot p) (cp p) (ThermalParams.R_contact p)
                (fst (Rpaths r)) (snd (Rpaths r)),
              spec_Q1_0 (Q_total p) (fst (Rpaths r)) (snd (Rpaths r)))
             (1 / 10 ^ 9)"
  by (rule coldplate_guess[OF assms])

text \<open>
  The witness runs the model with a root finder that hands back its initial guess, on
  \<open>params_uneven\<close>: the guess is \<open>(1233 / 4, 9 / 7)\<close>.
\<close>

theorem initial_guess_witness:
  "\<exists>r. snd (coldplate_2zone_model
              \<lparr>on_finite = \<lambda>func x0 xtol. (x0, 1), on_nonfinite = keep_guess\<rparr>
              params_uneven) = Inr r
     \<and> Rpaths r = (1, 3 / 4) \<and> 1 / fst (Rpaths r) + 1 / snd (Rpaths r) \<noteq> 0
     \<and> (Tcpu r, fst (Q r)) = (spec_Tcpu0 300 3 1 1 1 1 (3 / 4), spec_Q1_0 3 1 (3 / 4))
     \<and> (Tcpu r, fst (Q r)) = (1233 / 4, 9 / 7)"
proof -
  let ?probe = "\<lparr>on_finite = \<lambda>(func :: vec2 \<Rightarrow> vec2) (x0 :: vec2) (xtol :: real).
    (x0, 1 :: int), on_nonfinite = keep_guess\<rparr>"
  have "\<exists>r. snd (coldplate_2zone_model ?probe params_uneven) = Inr r"
    by (rule valid_returns) (simp_all add: params_uneven_def)
  then obtain r where r: "snd (coldplate_2zone_model ?probe params_uneven) = Inr r" ..
  have R: "Rpaths r = (1, 3 / 4)"
    using coldplate_Inr(1)[OF r]
    by (simp add: params_uneven_def spec_Rpath_def spec_Rcond_def spec_Rconv_def)
  have n: "fst (Rpaths r) \<noteq> 0" "snd (Rpaths r) \<noteq> 0"
    "1 / fst (Rpaths r) + 1 / snd (Rpaths r) \<noteq> 0"
    by (simp_all add: R)
  have g: "(Tcpu r, fst (Q r)) = (spec_Tcpu0 300 3 1 1 1 1 (3 / 4), spec_Q1_0 3 1 (3 / 4))"
    using initial_guess[OF r n] by (simp add: R fsolve_def params_uneven_def)
  moreover have "(spec_Tcpu0 300 3 1 1 1 1 (3 / 4), spec_Q1_0 3 1 (3 / 4)) = (1233 / 4, 9 / 7)"
    by (simp add: spec_Tcpu0_def spec_Tout_guess_def spec_Q1_0_def spec_w1_def)
  ultimately show ?thesis
    using r R n by auto
qed

section \<open>State assembly\<close>

text \<open>
  C7. Every returned result is derived from the two unknowns \<open>Tcpu\<close> and \<open>Q1\<close> of the
  solver: \<open>Q2 = Qtot - Q1\<close>, the plate temperature is \<open>Tcpu - Qtot * Rcontact\<close>, the bulk
  temperatures are \<open>Tb1\<close> and \<open>Tb2\<close>, the outlet temperature is the second bulk
  temperature, and the wall temperature of zone \<open>i\<close> is \<open>Tplate - Q_i * Rcond_i\<close> with the
  conduction resistance alone.
\<close>

theorem state_assembly:
  assumes "snd (coldplate_2zone_model hybrd p) = Inr r"
  shows "Tout r = snd (Tbulk r)
    \<and> fst (Twall r) = T_plate r - fst (Q r) * spec_Rcond (t_plate p) (k_plate p) (A_porous p)
    \<and> snd (Twall r) = T_plate r - snd (Q r) * spec_Rcond (t_plate p) (k_plate p) (A_outlet p)
    \<and> snd (Q r) = Q_total p - fst (Q r)
    \<and> T_plate r = spec_Tplate (Tcpu r) (Q_total p) (ThermalParams.R_contact p)
    \<and> Tbulk r = (spec_Tb1 (Tin p) (fst (Q r)) (mdot p) (cp p),
                  spec_Tb2 (Tin p) (fst (Q r)) (snd (Q r)) (mdot p) (cp p))
    \<and> ThermalResults.R_contact r = ThermalParams.R_contact p"
  using coldplate_Inr(3-8)[OF assms]
  by (simp add: spec_Tplate_def spec_Tb1_def spec_Tb2_def)

theorem state_assembly_witness:
  "\<exists>r. snd (coldplate_2zone_model newton_step params_uneven) = Inr r
     \<and> Tout r = snd (Tbulk r)
     \<and> fst (Twall r) = T_plate r - fst (Q r) * spec_Rcond 1 2 1
     \<and> snd (Twall r) = T_plate r - snd (Q r) * spec_Rcond 1 2 2
     \<and> snd (Q r) = 3 - fst (Q r)
     \<and> T_plate r = spec_Tplate (Tcpu r) 3 1
     \<and> Tbulk r = (spec_Tb1 300 (fst (Q r)) 1 1, spec_Tb2 300 (fst (Q r)) (snd (Q r)) 1 1)"
proof -
  have "\<exists>r. snd (coldplate_2zone_model newton_step params_uneven) = Inr r"
    by (rule valid_returns) (simp_all add: params_uneven_def)
  then obtain r where r: "snd (coldplate_2zone_model newton_step params_uneven) = Inr r" ..
  from state_assembly[OF r] have
    "Tout r = snd (Tbulk r)
     \<and> fst (Twall r) = T_plate r - fst (Q r) * spec_Rcond 1 2 1
     \<and> snd (Twall r) = T_plate r - snd (Q r) * spec_Rcond 1 2 2
     \<and> snd (Q r) = 3 - fst (Q r)
     \<and> T_plate r = spec_Tplate (Tcpu r) 3 1
     \<and> Tbulk r = (spec_Tb1 300 (fst (Q r)) 1 1, spec_Tb2 300 (fst (Q r)) (snd (Q r)) 1 1)"
    by (simp add: params_uneven_def)
  with r show ?thesis
    by blast
qed

section \<open>The caller's record under calibration\<close>

text \<open>
  C8, as the specification states it, fails: \<open>calibration_residuals\<close> assigns to the
  caller's record. One evaluation at the initial guess \<open>h0\<close> of the calibration script
  leaves \<open>27500\<close> and \<open>1500\<close> where the script's record held the placeholders
  \<open>100000\<close> and \<open>1000\<close>.
\<close>

theorem calibration_mutates_record:
  "h_porous params_calibrate = 100000 \<and> h_outlet params_calibrate = 1000
   \<and> h_porous (fst (calibration_residuals newton_step h0 params_calibrate)) = 27500
   \<and> h_outlet (fst (calibration_residuals newton_step h0 params_calibrate)) = 1500"
  by (simp add: calibration_residuals_fst) (simp add: params_calibrate_def h0_def)

text \<open>
  C8, amended. Every evaluation of \<open>calibration_residuals\<close> overwrites the two
  coefficient fields of the caller's record with \<open>h[0]\<close> and \<open>h[1]\<close> and leaves every
  other field as it was, whether the evaluation returns or raises; the record is
  unchanged only when it already held these two coefficients.
\<close>

theorem calibration_overwrites_coefficients:
  "fst (calibration_residuals hybrd h params) =
     params\<lparr>h_porous := fst h, h_outlet := snd h\<rparr>
   \<and> (fst (calibration_residuals hybrd h params) = params \<longleftrightarrow>
        h = (h_porous params, h_outlet params))"
proof -
  have "params\<lparr>h_porous := fst h, h_outlet := snd h\<rparr> = params \<longleftrightarrow>
          h = (h_porous params, h_outlet params)"
    by (cases params; cases h) auto
  then show ?thesis
    by (simp add: calibration_residuals_fst)
qed

section \<open>Equal path resistances\<close>

text \<open>
  C9, as the specification states it, fails. \<open>params_sym\<close> is a valid scenario with
  both path resistances equal to \<open>1\<close>; the forward model returns the exact root
  \<open>(307, 2)\<close> of the residuals, and the heat split is \<open>(2, 1)\<close>, not \<open>(3 / 2, 3 / 2)\<close>.
\<close>

theorem equal_resistances_uneven_split:
  "snd (coldplate_2zone_model newton_step params_sym) =
     Inr \<lparr>Tcpu = 307, T_plate = 304, Q = (2, 1), Tbulk = (302, 303), Twall = (303, 607 / 2),
          Tout = 303, Rpaths = (1, 1), R_contact = 1\<rparr>
   \<and> residuals_2zone (307, 2) 3 1 1 300 (1, 1) 1 = (0, 0)"
  by (simp add: coldplate_2zone_model_def params_sym_def Let_def fsolve_def
      newton_step_def newton_def residuals_2zone_def)

text \<open>
  C9, amended. The coolant reaches zone 2 heated by zone 1. With equal path resistances
  \<open>R\<close>, a converged solution (both residuals zero) of a scenario with positive flow
  rate, specific heat and \<open>R\<close> has \<open>Q2 * (2 + 1 / (mdot * cp * R)) = Qtot\<close> and
  \<open>Q1 = Q2 * (1 + 1 / (mdot * cp * R))\<close>: the split is even only for \<open>Qtot = 0\<close>, and
  for a positive heat load \<open>Q2 < Qtot / 2 < Q1\<close>.
\<close>

theorem serial_flow_split:
  assumes r: "snd (coldplate_2zone_model hybrd p) = Inr r"
    and conv: "residuals_2zone (Tcpu r, fst (Q r)) (Q_total p) (mdot p) (cp p) (Tin p)
                 (Rpaths r) (ThermalParams.R_contact p) = (0, 0)"
    and eq: "fst (Rpaths r) = snd (Rpaths r)"
    and pos: "0 < mdot p" "0 < cp p" "0 < fst (Rpaths r)"
  shows "snd (Q r) * (2 + 1 / (mdot p * cp p * fst (Rpaths r))) = Q_total p
    \<and> fst (Q r) = snd (Q r) * (1 + 1 / (mdot p * cp p * fst (Rpaths r)))
    \<and> (fst (Q r) = snd (Q r) \<longleftrightarrow> Q_total p = 0)
    \<and> (0 < Q_total p \<longrightarrow> snd (Q r) < Q_total p / 2 \<and> Q_total p / 2 < fst (Q r))"
proof -
  define k where "k = 1 / (mdot p * cp p * fst (Rpaths r))"
  have k: "0 < k"
    using pos by (simp add: k_def)
  have RR: "Rpaths r = (fst (Rpaths r), fst (Rpaths r))"
    using eq by (simp add: prod_eq_iff)
  have Q2: "snd (Q r) = Q_total p - fst (Q r)"
    by (rule coldplate_Inr(3)[OF r])
  have c: "residuals_2zone (Tcpu r, fst (Q r)) (Q_total p) (mdot p) (cp p) (Tin p)
             (fst (Rpaths r), fst (Rpaths r)) (ThermalParams.R_contact p) = (0, 0)"
    using conv RR by simp
  have a: "snd (Q r) * (2 + k) = Q_total p"
    using even_resistance_split(1)[OF c] by (simp add: Q2 k_def)
  have b: "fst (Q r) = snd (Q r) * (1 + k)"
    using even_resistance_split(2)[OF c] by (simp add: Q2 k_def)
  have e: "fst (Q r) = snd (Q r) \<longleftrightarrow> Q_total p = 0"
  proof
    assume "fst (Q r) = snd (Q r)"
    with b have "snd (Q r) * k = 0"
      by (simp add: algebra_simps)
    with k have "snd (Q r) = 0"
      by simp
    with a show "Q_total p = 0"
      by simp
  next
    assume "Q_total p = 0"
    with a k have "snd (Q r) = 0"
      by simp
    with b show "fst (Q r) = snd (Q r)"
      by simp
  qed
  have o: "snd (Q r) < Q_total p / 2 \<and> Q_total p / 2 < fst (Q r)" if "0 < Q_total p"
  proof -
    from that a k have q: "0 < snd (Q r)"
      by (metis add_pos_pos zero_less_mult_pos2 zero_less_numeral)
    with k have "0 < snd (Q r) * k"
      by simp
    with a have "2 * snd (Q r) < Q_total p"
      by (simp add: algebra_simps)
    with Q2 show ?thesis
      by simp
  qed
  from a b e o show ?thesis
    by (simp add: k_def)
qed

theorem serial_flow_split_witness:
  "\<exists>r. snd (coldplate_2zone_model newton_step params_sym) = Inr r
     \<and> residuals_2zone (Tcpu r, fst (Q r)) 3 1 1 300 (Rpaths r) 1 = (0, 0)
     \<and> Rpaths r = (1, 1) \<and> (0 :: real) < 3
     \<and> snd (Q r) * (2 + 1 / (1 * 1 * 1)) = 3 \<and> fst (Q r) = snd (Q r) * (1 + 1 / (1 * 1 * 1))
     \<and> fst (Q r) \<noteq> snd (Q r) \<and> snd (Q r) < 3 / 2 \<and> 3 / 2 < fst (Q r)"
proof -
  define r where "r = \<lparr>Tcpu = 307, T_plate = 304, Q = (2, 1), Tbulk = (302, 303),
    Twall = (303, 607 / 2), Tout = 303, Rpaths = (1, 1), R_contact = 1\<rparr>"
  have r: "snd (coldplate_2zone_model newton_step params_sym) = Inr r"
    by (simp add: r_def coldplate_2zone_model_def params_sym_def Let_def fsolve_def
        newton_step_def newton_def residuals_2zone_def)
  have conv: "residuals_2zone (Tcpu r, fst (Q r)) (Q_total params_sym) (mdot params_sym)
      (cp params_sym) (Tin params_sym) (Rpaths r) (ThermalParams.R_contact params_sym) = (0, 0)"
    by (simp add: r_def params_sym_def residuals_2zone_def Let_def)
  have eq: "fst (Rpaths r) = snd (Rpaths r)"
    by (simp add: r_def)
  have pos: "0 < mdot params_sym" "0 < cp params_sym" "0 < fst (Rpaths r)"
    by (simp_all add: r_def params_sym_def)
  from serial_flow_split[OF r conv eq pos] have
    "snd (Q r) * (2 + 1 / (1 * 1 * 1)) = 3 \<and> fst (Q r) = snd (Q r) * (1 + 1 / (1 * 1 * 1))
     \<and> fst (Q r) \<noteq> snd (Q r) \<and> snd (Q r) < 3 / 2 \<and> 3 / 2 < fst (Q r)"
    by (simp add: params_sym_def r_def)
  moreover have "residuals_2zone (Tcpu r, fst (Q r)) 3 1 1 300 (Rpaths r) 1 = (0, 0)"
    using conv by (simp add: params_sym_def)
  moreover have "Rpaths r = (1, 1)"
    by (simp add: r_def)
  ultimately show ?thesis
    using r by (intro exI[of _ r]) simp
qed

section \<open>The forward model leaves its argument alone\<close>

text \<open>
  C10. The forward model only reads the record it is given: when the call ends, with a
  result or with an exception, every field holds the value it held before. The root
  finder receives numbers and the array of path resistances, never the record.
\<close>

theorem forward_model_reads_only:
  "fst (coldplate_2zone_model hybrd params) = params"
  by (simp add: coldplate_2zone_model_def Let_def)

end
